theory Spec2Isabelle
  imports Complex_Main "HOL-Library.AList" "HOL-Library.Sublist"
begin

section \<open>JavaScript values as the handlers of \<^verbatim>\<open>backend/server.js\<close> see them\<close>

text \<open>
  A JavaScript string is a sequence of UTF-16 code units; a literal of the source is
  written \<open>js ''...''\<close>.
\<close>

type_synonym jsstring = "nat list"

definition js :: "string \<Rightarrow> jsstring" where
  "js s = map of_char s"

text \<open>
  The code units that \<^verbatim>\<open>String.prototype.trim\<close> and \<^verbatim>\<open>parseInt\<close> strip: ECMAScript's
  WhiteSpace and LineTerminator (tab, LF, VT, FF, CR, space, NBSP, U+1680, U+2000 to
  U+200A, U+2028, U+2029, U+202F, U+205F, U+3000, U+FEFF).
\<close>

definition isWhiteSpace :: "nat \<Rightarrow> bool" where
  "isWhiteSpace c =
     (c \<in> set [9, 10, 11, 12, 13, 32, 160, 5760, 8232, 8233, 8239, 8287, 12288, 65279]
      \<or> (8192 \<le> c \<and> c \<le> 8202))"

definition trim :: "jsstring \<Rightarrow> jsstring" where
  "trim s = rev (dropWhile isWhiteSpace (rev (dropWhile isWhiteSpace s)))"

text \<open>
  Case mapping is modelled on the ASCII letters; every other code unit is kept. In the
  runtime's Unicode tables the only code units outside ASCII whose image is ASCII alone
  are the Kelvin sign (to \<^verbatim>\<open>k\<close>) in lower case, and the dotless i, the long s, the sharp s and
  the ligatures of f, i, l, s and t (to \<^verbatim>\<open>I\<close>, \<^verbatim>\<open>S\<close>, \<^verbatim>\<open>SS\<close>, \<^verbatim>\<open>FF\<close>, \<^verbatim>\<open>FI\<close>, \<^verbatim>\<open>FL\<close>, \<^verbatim>\<open>ST\<close>) in upper
  case. None of these letters occurs in a constant that a handler compares converted
  text with (\<^verbatim>\<open>VU2050\<close> in upper case; the phase 4 answers and the accepted answers of
  riddle 3 in lower case), so every comparison below decides as the source does.
\<close>

definition toLowerCase :: "jsstring \<Rightarrow> jsstring" where
  "toLowerCase s = map (\<lambda>c. if 65 \<le> c \<and> c \<le> 90 then c + 32 else c) s"

definition toUpperCase :: "jsstring \<Rightarrow> jsstring" where
  "toUpperCase s = map (\<lambda>c. if 97 \<le> c \<and> c \<le> 122 then c - 32 else c) s"

text \<open>\<^verbatim>\<open>s.includes(x)\<close>: \<open>x\<close> occurs in \<open>s\<close> as a contiguous run.\<close>

definition str_includes :: "jsstring \<Rightarrow> jsstring \<Rightarrow> bool" where
  "str_includes s x = sublist x s"

text \<open>The decimal digits of a number, as \<^verbatim>\<open>String(index)\<close> gives them for an array index.\<close>

fun showNat :: "nat \<Rightarrow> jsstring" where
  "showNat n = (if n < 10 then [48 + n] else showNat (n div 10) @ [48 + n mod 10])"

declare showNat.simps [simp del]

text \<open>
  \<^verbatim>\<open>parseInt(string)\<close> with no radix: leading white space is skipped, one sign is read,
  a prefix \<^verbatim>\<open>0x\<close> or \<^verbatim>\<open>0X\<close> selects radix 16, and the longest run of digits is the value;
  no digit at all gives \<^verbatim>\<open>NaN\<close>, here \<open>None\<close>. The value is the exact integer: the source
  compares it with the riddle ids 1, 2 and 3 only, which rounding to a double neither
  produces nor loses.
\<close>

definition digitValue :: "nat \<Rightarrow> nat" where
  "digitValue c =
     (if 48 \<le> c \<and> c \<le> 57 then c - 48
      else if 97 \<le> c \<and> c \<le> 122 then c - 87
      else if 65 \<le> c \<and> c \<le> 90 then c - 55
      else 36)"

definition parseInt :: "jsstring \<Rightarrow> int option" where
  "parseInt string =
     (let S = dropWhile isWhiteSpace string;
          sign = (if take 1 S = [45] then - 1 else 1);
          S1 = (if take 1 S = [43] \<or> take 1 S = [45] then drop 1 S else S);
          hex = (take 2 S1 = [48, 120] \<or> take 2 S1 = [48, 88]);
          R = (if hex then 16 else 10);
          S2 = (if hex then drop 2 S1 else S1);
          Z = takeWhile (\<lambda>c. digitValue c < R) S2
      in if Z = [] then None
         else Some (sign * int (foldl (\<lambda>acc c. acc * R + digitValue c) 0 Z)))"

text \<open>
  The values that \<^verbatim>\<open>JSON.parse\<close> (in \<^verbatim>\<open>express.json()\<close>) produces and that the handlers
  build from them, and \<open>Undefined\<close> for a property that is absent. An object is the list of
  its own properties in the order of their creation, with pairwise different keys; a key
  \<^verbatim>\<open>__proto__\<close> in a parsed body is an own property like any other. Every object of this
  type is a plain object: its prototype is \<^verbatim>\<open>Object.prototype\<close>.
\<close>

datatype jsval =
    Undefined
  | Null
  | Bool bool
  | Num rat
  | Str jsstring
  | Arr "jsval list"
  | Obj "(jsstring \<times> jsval) list"

text \<open>
  The exceptions a handler can meet: a \<^verbatim>\<open>TypeError\<close> (a property of \<^verbatim>\<open>undefined\<close> or \<^verbatim>\<open>null\<close>,
  a call of something that is no function, a conversion of an object to a string that
  fails, a write to the prototype of \<^verbatim>\<open>Object.prototype\<close>) and the \<^verbatim>\<open>RangeError\<close> of a call
  stack that is used up.
\<close>

datatype error = TypeError | RangeError

fun truthy :: "jsval \<Rightarrow> bool" where
  "truthy Undefined = False"
| "truthy Null = False"
| "truthy (Bool b) = b"
| "truthy (Num n) = (n \<noteq> 0)"
| "truthy (Str s) = (s \<noteq> [])"
| "truthy (Arr xs) = True"
| "truthy (Obj kvs) = True"

text \<open>
  \<^verbatim>\<open>v && typeof v === 'object' && !Array.isArray(v)\<close>, the test of \<^verbatim>\<open>deepMerge\<close>: \<open>v\<close> is a
  plain object.
\<close>

definition isObject :: "jsval \<Rightarrow> bool" where
  "isObject v = (case v of Obj kvs \<Rightarrow> True | _ \<Rightarrow> False)"

text \<open>
  The value found by following own properties along a path, \<open>Undefined\<close> where the path
  leaves the objects; and the value with a new content at the end of a path. A property
  that is written keeps its place if the object has it and is added at the end if not.
\<close>

fun valueAt :: "jsval \<Rightarrow> jsstring list \<Rightarrow> jsval" where
  "valueAt v [] = v"
| "valueAt (Obj kvs) (k # ks) =
     (case map_of kvs k of Some x \<Rightarrow> valueAt x ks | None \<Rightarrow> Undefined)"
| "valueAt v (k # ks) = Undefined"

fun putAt :: "jsval \<Rightarrow> jsstring list \<Rightarrow> jsval \<Rightarrow> jsval" where
  "putAt v [] x = x"
| "putAt (Obj kvs) (k # ks) x =
     Obj (AList.update k
            (putAt (case map_of kvs k of Some y \<Rightarrow> y | None \<Rightarrow> Undefined) ks x) kvs)"
| "putAt v (k # ks) x = v"

text \<open>
  Reading \<^verbatim>\<open>v.name\<close> where \<open>v\<close> is neither \<^verbatim>\<open>undefined\<close> nor \<^verbatim>\<open>null\<close> and the name is one of
  those the handlers use (\<^verbatim>\<open>teamId\<close>, \<^verbatim>\<open>answers\<close>, \<^verbatim>\<open>completed\<close>, ...; none is an array index,
  \<^verbatim>\<open>length\<close> or the name of a built-in method): the own property of an object, else what
  the prototype chain gives, which ends in \<^verbatim>\<open>Object.prototype\<close> for objects, arrays and
  primitive values alike. \<open>P\<close> is \<^verbatim>\<open>Object.prototype\<close> with the properties the program has
  added to it.
\<close>

definition getField :: "jsval \<Rightarrow> jsval \<Rightarrow> jsstring \<Rightarrow> jsval" where
  "getField P v name =
     (case v of
        Obj kvs \<Rightarrow> (case map_of kvs name of Some x \<Rightarrow> x | None \<Rightarrow> valueAt P [name])
      | _ \<Rightarrow> valueAt P [name])"

text \<open>
  \<^verbatim>\<open>answers[index]\<close> for a number \<open>index\<close>: reading a property of \<^verbatim>\<open>undefined\<close> or \<^verbatim>\<open>null\<close>
  throws; an element of an array, a code unit of a string or the property of an object
  whose key is the decimal form of the index is found as an own property; what is not
  found is looked up in \<^verbatim>\<open>Object.prototype\<close>.
\<close>

fun getIndex :: "jsval \<Rightarrow> jsval \<Rightarrow> nat \<Rightarrow> error + jsval" where
  "getIndex P Undefined index = Inl TypeError"
| "getIndex P Null index = Inl TypeError"
| "getIndex P (Bool b) index = Inr (valueAt P [showNat index])"
| "getIndex P (Num n) index = Inr (valueAt P [showNat index])"
| "getIndex P (Str s) index =
     Inr (if index < length s then Str [s ! index] else valueAt P [showNat index])"
| "getIndex P (Arr xs) index =
     Inr (if index < length xs then xs ! index else valueAt P [showNat index])"
| "getIndex P (Obj kvs) index =
     Inr (case map_of kvs (showNat index) of
            None \<Rightarrow> valueAt P [showNat index]
          | Some v \<Rightarrow> v)"

text \<open>
  The array index a property key stands for, if any: the decimal form, without leading
  zeros, of a number below \<open>2\<^sup>3\<^sup>2 - 1\<close>. An object enumerates its index keys first, in
  ascending order, and its other keys after them in the order of their creation
  (\<^verbatim>\<open>for (key in object)\<close>, \<^verbatim>\<open>Object.entries\<close>).
\<close>

definition indexOf :: "jsstring \<Rightarrow> nat option" where
  "indexOf k =
     (let n = foldl (\<lambda>acc c. acc * 10 + (c - 48)) 0 k
      in if k \<noteq> [] \<and> list_all (\<lambda>c. 48 \<le> c \<and> c \<le> 57) k
            \<and> \<not> (take 1 k = [48] \<and> k \<noteq> [48]) \<and> n < 4294967295
         then Some n else None)"

definition ownKeys :: "jsval \<Rightarrow> jsstring list" where
  "ownKeys v =
     (case v of
        Obj kvs \<Rightarrow>
          map showNat (sort (remdups (List.map_filter indexOf (map fst kvs))))
          @ filter (\<lambda>k. indexOf k = None) (remdups (map fst kvs))
      | _ \<Rightarrow> [])"

text \<open>\<^verbatim>\<open>Object.entries(answers)\<close>, for the values that pass \<^verbatim>\<open>typeof answers === 'object'\<close>.\<close>

definition entries :: "jsval \<Rightarrow> (jsstring \<times> jsval) list" where
  "entries v =
     (case v of
        Obj kvs \<Rightarrow> map (\<lambda>k. (k, valueAt v [k])) (ownKeys v)
      | Arr xs \<Rightarrow> zip (map showNat [0..<length xs]) xs
      | _ \<Rightarrow> [])"

text \<open>
  Whether the conversion of a value to a string in a template literal of a \<^verbatim>\<open>console.log\<close>
  call returns. An object is converted by its \<^verbatim>\<open>toString\<close> method: it inherits the one of
  \<^verbatim>\<open>Object.prototype\<close>, unless it has an own property of that name, which in a value of
  this type is no function; then \<^verbatim>\<open>valueOf\<close> is tried, which gives no primitive value
  either, and the conversion throws a \<^verbatim>\<open>TypeError\<close>. An array converts its elements, but
  for \<^verbatim>\<open>undefined\<close> and \<^verbatim>\<open>null\<close>.
\<close>

fun printable :: "jsval \<Rightarrow> bool" where
  "printable (Obj kvs) = (map_of kvs (js ''toString'') = None)"
| "printable (Arr xs) = list_all printable xs"
| "printable v = True"


section \<open>The objects \<^verbatim>\<open>deepMerge\<close> works on\<close>

text \<open>
  \<^verbatim>\<open>deepMerge(target, source)\<close> (lines 161 to 171) writes into objects it holds by
  reference, so the objects a call can reach are kept in a heap with three roots:
  \<^verbatim>\<open>Object.prototype\<close>, with the enumerable properties the program has added to it; the
  stored team \<^verbatim>\<open>existingTeam\<close>; and the update \<^verbatim>\<open>teamData\<close> the handler passes. A reference
  is a root with a path of own properties.
\<close>

datatype root = ObjectPrototype | ExistingTeam | TeamData

type_synonym ref = "root \<times> jsstring list"

type_synonym heap = "root \<Rightarrow> jsval"

definition readRef :: "heap \<Rightarrow> ref \<Rightarrow> jsval" where
  "readRef h r = valueAt (h (fst r)) (snd r)"

definition writeRef :: "heap \<Rightarrow> ref \<Rightarrow> jsval \<Rightarrow> heap" where
  "writeRef h r x = h(fst r := putAt (h (fst r)) (snd r) x)"

definition child :: "ref \<Rightarrow> jsstring \<Rightarrow> ref" where
  "child r k = (fst r, snd r @ [k])"

definition hasOwn :: "heap \<Rightarrow> ref \<Rightarrow> jsstring \<Rightarrow> bool" where
  "hasOwn h r k = (case readRef h r of Obj kvs \<Rightarrow> map_of kvs k \<noteq> None | _ \<Rightarrow> False)"

definition theObjectPrototype :: ref where
  "theObjectPrototype = (ObjectPrototype, [])"

text \<open>
  The properties \<^verbatim>\<open>Object.prototype\<close> has from the start, all of them not enumerable:
  \<^verbatim>\<open>__proto__\<close>, an accessor, and these, whose values are built-in functions.
\<close>

definition builtinNames :: "jsstring list" where
  "builtinNames =
     [js ''constructor'', js ''__defineGetter__'', js ''__defineSetter__'',
      js ''hasOwnProperty'', js ''__lookupGetter__'', js ''__lookupSetter__'',
      js ''isPrototypeOf'', js ''propertyIsEnumerable'', js ''toString'', js ''valueOf'',
      js ''toLocaleString'']"

text \<open>
  \<^verbatim>\<open>for (const key in source)\<close>: the own enumerable keys of the object, then the
  enumerable keys it inherits from \<^verbatim>\<open>Object.prototype\<close> and does not shadow. The list is
  made when the loop starts.
\<close>

definition forInKeys :: "heap \<Rightarrow> ref \<Rightarrow> jsstring list" where
  "forInKeys h s =
     (let own = ownKeys (readRef h s)
      in if s = theObjectPrototype then own
         else own @ filter (\<lambda>k. k \<notin> set own) (ownKeys (h ObjectPrototype)))"

text \<open>\<^verbatim>\<open>source[key]\<close> for a key of that loop: the own property, or the inherited one.\<close>

definition sourceRef :: "heap \<Rightarrow> ref \<Rightarrow> jsstring \<Rightarrow> ref" where
  "sourceRef h s k = (if hasOwn h s k then child s k else child theObjectPrototype k)"

text \<open>
  \<^verbatim>\<open>target[key]\<close>, where the key is any string a request has sent: the own property; for
  \<^verbatim>\<open>__proto__\<close> the prototype of the target, which is \<^verbatim>\<open>Object.prototype\<close> itself, or \<^verbatim>\<open>null\<close>
  when the target is \<^verbatim>\<open>Object.prototype\<close>; a property added to \<^verbatim>\<open>Object.prototype\<close>, by
  inheritance; a built-in function; or nothing.
\<close>

datatype found = At ref | Native | Missing

definition targetProperty :: "heap \<Rightarrow> ref \<Rightarrow> jsstring \<Rightarrow> found" where
  "targetProperty h t k =
     (if hasOwn h t k then At (child t k)
      else if k = js ''__proto__''
        then (if t = theObjectPrototype then Missing else At theObjectPrototype)
      else if t \<noteq> theObjectPrototype \<and> hasOwn h theObjectPrototype k
        then At (child theObjectPrototype k)
      else if k \<in> set builtinNames then Native
      else Missing)"

text \<open>
  The embedding covers the heaps in which \<^verbatim>\<open>Object.prototype\<close> has its built-in properties
  unchanged and every object is a plain object with \<^verbatim>\<open>Object.prototype\<close> as its prototype.
  A step of \<^verbatim>\<open>deepMerge\<close> that would leave these heaps has the result \<open>None\<close>: the merge
  into a built-in function (\<^verbatim>\<open>target['constructor']\<close>, \<^verbatim>\<open>target['toString']\<close>, ...), into an
  array or into a primitive value, the write of an
  array or of \<^verbatim>\<open>null\<close> to the \<^verbatim>\<open>__proto__\<close> of an object, the overwriting of a built-in
  property of \<^verbatim>\<open>Object.prototype\<close>. What the server does from there on depends on the
  runtime's own code and is not described here.

  \<^verbatim>\<open>target[key] = value\<close> on a target that is a plain object or \<^verbatim>\<open>Object.prototype\<close>. The
  key \<^verbatim>\<open>__proto__\<close> reaches the setter of \<^verbatim>\<open>Object.prototype\<close>, which ignores a primitive value
  and throws when the prototype of \<^verbatim>\<open>Object.prototype\<close> is to be changed; every other key
  is written as an own property.
\<close>

definition assign ::
  "heap \<Rightarrow> ref \<Rightarrow> jsstring \<Rightarrow> jsval \<Rightarrow> (heap \<times> error option) option" where
  "assign h t k v =
     (if k = js ''__proto__'' \<and> \<not> hasOwn h t k then
        (case v of
           Obj kvs \<Rightarrow> if t = theObjectPrototype then Some (h, Some TypeError) else None
         | Arr xs \<Rightarrow> if t = theObjectPrototype then Some (h, Some TypeError) else None
         | Null \<Rightarrow> if t = theObjectPrototype then Some (h, None) else None
         | _ \<Rightarrow> Some (h, None))
      else if t = theObjectPrototype \<and> k \<in> set builtinNames then None
      else Some (writeRef h (child t k) v, None))"

text \<open>\<^verbatim>\<open>if (!target[key]) target[key] = {}\<close>.\<close>

definition ensureObject :: "heap \<Rightarrow> ref \<Rightarrow> jsstring \<Rightarrow> (heap \<times> error option) option" where
  "ensureObject h t k =
     (case targetProperty h t k of
        Native \<Rightarrow> Some (h, None)
      | At r \<Rightarrow> if truthy (readRef h r) then Some (h, None) else assign h t k (Obj [])
      | Missing \<Rightarrow> assign h t k (Obj []))"

text \<open>
  The loop of \<^verbatim>\<open>deepMerge\<close> over the keys that are left, in a call that may nest \<open>n\<close> more
  calls before the stack is used up. The result is the heap with \<open>None\<close> when the loop
  has returned, or the heap as the writes up to there have left it with the exception
  thrown.
\<close>

fun forIn ::
  "nat \<Rightarrow> heap \<Rightarrow> ref \<Rightarrow> ref \<Rightarrow> jsstring list \<Rightarrow> (heap \<times> error option) option" where
  "forIn n h target source [] = Some (h, None)"
| "forIn n h target source (key # keys) =
     (case (if isObject (readRef h (sourceRef h source key)) then
              (case ensureObject h target key of
                 None \<Rightarrow> None
               | Some (h1, Some e) \<Rightarrow> Some (h1, Some e)
               | Some (h1, None) \<Rightarrow>
                   (case targetProperty h1 target key of
                      At r \<Rightarrow>
                        if isObject (readRef h1 r) then
                          (if n = 0 then Some (h1, Some RangeError)
                           else forIn (n - 1) h1 r (sourceRef h1 source key)
                                  (forInKeys h1 (sourceRef h1 source key)))
                        else None
                    | Native \<Rightarrow> None
                    | Missing \<Rightarrow> None))
            else assign h target key (readRef h (sourceRef h source key)))
      of
        None \<Rightarrow> None
      | Some (h2, Some e) \<Rightarrow> Some (h2, Some e)
      | Some (h2, None) \<Rightarrow> forIn n h2 target source keys)"

definition deepMerge ::
  "nat \<Rightarrow> heap \<Rightarrow> ref \<Rightarrow> ref \<Rightarrow> (heap \<times> error option) option" where
  "deepMerge n h target source =
     (if n = 0 then Some (h, Some RangeError)
      else forIn (n - 1) h target source (forInKeys h source))"

text \<open>
  The number of nested calls of \<^verbatim>\<open>deepMerge\<close> the runtime allows. The value depends on the
  runtime; every evaluation below nests four calls at most.
\<close>

definition maxCallStack :: nat where
  "maxCallStack = 10000"


section \<open>The server state\<close>

text \<open>
  What a request can change: \<^verbatim>\<open>Object.prototype\<close> and \<^verbatim>\<open>teamsDB\<close>, a \<^verbatim>\<open>Map\<close> from team id to
  team object that is iterated in insertion order: a list of entries, where \<^verbatim>\<open>set\<close>
  replaces the value of a key in place or appends a new entry (\<^const>\<open>AList.update\<close>).
\<close>

record world =
  objectPrototype :: jsval
  teamsDB :: "(jsval \<times> jsval) list"

text \<open>
  \<^verbatim>\<open>teamsDB.get(teamId) || null\<close>. A \<^verbatim>\<open>Map\<close> compares objects by identity, and an object that
  comes from a request body is a new one.
\<close>

definition getTeamById :: "world \<Rightarrow> jsval \<Rightarrow> jsval option" where
  "getTeamById w teamId =
     (if isObject teamId \<or> (case teamId of Arr xs \<Rightarrow> True | _ \<Rightarrow> False) then None
      else case map_of (teamsDB w) teamId of
        None \<Rightarrow> None
      | Some team \<Rightarrow> if truthy team then Some team else None)"

definition createTeam :: "world \<Rightarrow> jsval \<Rightarrow> jsval \<Rightarrow> world" where
  "createTeam w teamId teamData = w\<lparr>teamsDB := AList.update teamId teamData (teamsDB w)\<rparr>"

text \<open>
  \<^verbatim>\<open>saveTeam\<close>, in-memory branch (lines 158 to 175). The stored team is changed in place,
  so the writes of a merge that throws stay; \<^verbatim>\<open>teamsDB.set\<close> is not reached then. Every
  handler calls \<^verbatim>\<open>saveTeam\<close> with the id under which \<^verbatim>\<open>getTeamById\<close> has just found the team.
\<close>

definition saveTeam :: "world \<Rightarrow> jsval \<Rightarrow> jsval \<Rightarrow> (world \<times> error option) option" where
  "saveTeam w teamId teamData =
     (let existingTeam = (case getTeamById w teamId of Some team \<Rightarrow> team | None \<Rightarrow> Obj []);
          h = (\<lambda>r. case r of ObjectPrototype \<Rightarrow> objectPrototype w
                     | ExistingTeam \<Rightarrow> existingTeam | TeamData \<Rightarrow> teamData)
      in if \<not> isObject existingTeam then None
         else case deepMerge maxCallStack h (ExistingTeam, []) (TeamData, []) of
           None \<Rightarrow> None
         | Some (h', Some e) \<Rightarrow>
             Some (\<lparr>objectPrototype = h' ObjectPrototype,
                    teamsDB = (if getTeamById w teamId = None then teamsDB w
                               else AList.update teamId (h' ExistingTeam) (teamsDB w))\<rparr>,
                   Some e)
         | Some (h', None) \<Rightarrow>
             Some (\<lparr>objectPrototype = h' ObjectPrototype,
                    teamsDB = AList.update teamId (h' ExistingTeam) (teamsDB w)\<rparr>,
                   None))"

text \<open>\<^verbatim>\<open>team.phaseN?.completed\<close>.\<close>

definition optCompleted :: "jsval \<Rightarrow> jsval \<Rightarrow> jsstring \<Rightarrow> jsval" where
  "optCompleted P team phase =
     (let p = getField P team phase
      in if p = Undefined \<or> p = Null then Undefined else getField P p (js ''completed''))"

text \<open>The leaderboard entry, and \<^verbatim>\<open>getCompletedTeams\<close> (in-memory branch).\<close>

record entry =
  entry_teamId :: jsval
  entry_teamName :: jsval
  entry_teamLeader :: jsval

definition getCompletedTeams :: "world \<Rightarrow> error + entry list" where
  "getCompletedTeams w =
     (let P = objectPrototype w
      in if list_ex (\<lambda>(teamId, team). team = Undefined \<or> team = Null) (teamsDB w)
         then Inl TypeError
         else Inr (take 10
                (map (\<lambda>(teamId, team).
                        \<lparr>entry_teamId = getField P team (js ''teamId''),
                         entry_teamName = getField P team (js ''teamName''),
                         entry_teamLeader = getField P team (js ''teamLeader'')\<rparr>)
                   (filter (\<lambda>(teamId, team). truthy (optCompleted P team (js ''phase6'')))
                      (teamsDB w)))))"

text \<open>
  The team object that the registration handler stores once its validation has passed
  (lines 475 to 493). The id comes from the clock and a random number, so it is a
  parameter here.
\<close>

definition newTeam ::
  "jsstring \<Rightarrow> jsstring \<Rightarrow> jsval \<Rightarrow> jsstring list \<Rightarrow> jsval \<Rightarrow> jsstring \<Rightarrow> jsval" where
  "newTeam teamId teamName teamLeader members email theme =
     Obj [(js ''teamId'', Str teamId),
          (js ''teamName'', Str (toLowerCase teamName)),
          (js ''teamLeader'', teamLeader),
          (js ''teamMembers'', Arr (map Str members)),
          (js ''email'', email),
          (js ''theme'', Str theme),
          (js ''phase1'', Obj [(js ''completed'', Bool False)]),
          (js ''phase2'', Obj [(js ''completed'', Bool False)]),
          (js ''phase3'', Obj [(js ''completed'', Bool False)]),
          (js ''phase4'', Obj [(js ''completed'', Bool False)]),
          (js ''phase5'', Obj [(js ''completed'', Bool False)]),
          (js ''phase6'', Obj [(js ''completed'', Bool False)]),
          (js ''currentPhase'', Num 1)]"


section \<open>Phase content\<close>

text \<open>
  The question and riddle tables, with the fields the handlers read (\<^verbatim>\<open>id\<close>,
  \<^verbatim>\<open>correctAnswer\<close>, \<^verbatim>\<open>type\<close>, \<^verbatim>\<open>acceptedAnswers\<close>); the display texts and option
  labels take part in no decision and are left out.
\<close>

record question =
  question_id :: nat
  correctAnswer :: nat

definition phase2Questions :: "question list" where
  "phase2Questions =
     [\<lparr>question_id = 1, correctAnswer = 2\<rparr>, \<lparr>question_id = 2, correctAnswer = 0\<rparr>,
      \<lparr>question_id = 3, correctAnswer = 2\<rparr>, \<lparr>question_id = 4, correctAnswer = 3\<rparr>,
      \<lparr>question_id = 5, correctAnswer = 1\<rparr>, \<lparr>question_id = 6, correctAnswer = 2\<rparr>,
      \<lparr>question_id = 7, correctAnswer = 3\<rparr>, \<lparr>question_id = 8, correctAnswer = 3\<rparr>,
      \<lparr>question_id = 9, correctAnswer = 3\<rparr>, \<lparr>question_id = 10, correctAnswer = 2\<rparr>]"

definition phase3Questions :: "question list" where
  "phase3Questions =
     [\<lparr>question_id = 1, correctAnswer = 0\<rparr>, \<lparr>question_id = 2, correctAnswer = 1\<rparr>,
      \<lparr>question_id = 3, correctAnswer = 0\<rparr>, \<lparr>question_id = 4, correctAnswer = 0\<rparr>,
      \<lparr>question_id = 5, correctAnswer = 2\<rparr>]"

datatype riddle =
    Mcq nat nat
  | Text nat "jsstring list"

fun riddle_id :: "riddle \<Rightarrow> nat" where
  "riddle_id (Mcq i c) = i"
| "riddle_id (Text i acceptedAnswers) = i"

definition phase5Riddles :: "riddle list" where
  "phase5Riddles =
     [Mcq 1 2, Mcq 2 2,
      Text 3 [js ''BLDG 2'', js ''BLDG2'', js ''bldg 2'', js ''bldg2'', js ''Bldg 2'',
              js ''Bldg2'']]"


section \<open>Requests and responses\<close>

datatype phase2_result = Phase2Result nat bool

datatype phase3_result = Phase3Result nat jsval nat bool

text \<open>
  A response is an error with its status and message (for status 500 the message of the
  caught exception, which the source appends, is left out), or the success object of
  one handler with the fields that vary.
\<close>

datatype response =
    Error nat string
  | Phase1Completed
  | Phase2Completed
  | Phase2Submitted nat nat bool "phase2_result list"
  | Phase3Submitted nat bool "phase3_result list" "question list"
  | Phase4Correct
  | Phase4Incorrect
  | Phase5Failed nat nat
  | Phase5Completed nat
  | Phase6Completed jsval jsval
  | Leaderboard "entry list"

text \<open>
  The end of a handler that has called \<^verbatim>\<open>saveTeam\<close>: an exception of \<^verbatim>\<open>saveTeam\<close> is caught
  and answered with status 500; else the handler logs a line with \<^verbatim>\<open>team.teamName\<close>, read
  from the team object that \<^verbatim>\<open>saveTeam\<close> has changed in place (and, in phase 6, with the
  location answer), and sends its success response. The conversion of a logged value to
  a string can throw, which is caught in the same way.
\<close>

definition teamNow :: "world \<Rightarrow> jsval \<Rightarrow> jsval" where
  "teamNow w teamId = (case map_of (teamsDB w) teamId of Some team \<Rightarrow> team | None \<Rightarrow> Undefined)"

definition respond ::
  "(world \<times> error option) option \<Rightarrow> jsval \<Rightarrow> string \<Rightarrow> jsval list \<Rightarrow> (jsval \<Rightarrow> jsval \<Rightarrow> response)
     \<Rightarrow> (world \<times> response) option" where
  "respond saved teamId message logged success =
     (case saved of
        None \<Rightarrow> None
      | Some (w', Some e) \<Rightarrow> Some (w', Error 500 message)
      | Some (w', None) \<Rightarrow>
          (let P = objectPrototype w'; team = teamNow w' teamId
           in if list_all printable (getField P team (js ''teamName'') # logged)
              then Some (w', success P team)
              else Some (w', Error 500 message)))"


section \<open>The phase handlers\<close>

text \<open>
  Each handler takes the server state and \<^verbatim>\<open>req.body\<close> and returns the state after the
  request with the response, or \<open>None\<close> where \<^verbatim>\<open>saveTeam\<close> leaves the embedding. An exception
  thrown inside a handler is caught by its \<^verbatim>\<open>try\<close> block, which answers with status 500.
  Destructuring a body that is \<^verbatim>\<open>undefined\<close> or \<^verbatim>\<open>null\<close> throws; a field the client did not
  send is read from \<^verbatim>\<open>Object.prototype\<close>, as any property the body does not own.
\<close>

subsection \<open>Phase 1\<close>

definition phase1_submit :: "world \<Rightarrow> jsval \<Rightarrow> (world \<times> response) option" where
  \<open>phase1_submit w body =
     (let P = objectPrototype w in
      if body = Undefined \<or> body = Null then Some (w, Error 500 ''Server error: '')
      else
        let teamId = getField P body (js ''teamId'');
            aiPrompt = getField P body (js ''aiPrompt'')
        in if \<not> truthy teamId
           then Some (w, Error 400 ''Team ID and AI prompt are required'')
           else if \<not> truthy aiPrompt
           then Some (w, Error 400 ''Team ID and AI prompt are required'')
           else case getTeamById w teamId of
             None \<Rightarrow> Some (w, Error 404 ''Team not found'')
           | Some team \<Rightarrow>
               if truthy (optCompleted P team (js ''phase1''))
               then Some (w, Error 400 ''Phase 1 already completed'')
               else if getField P team (js ''currentPhase'') \<noteq> Num 1
               then Some (w, Error 400 ''Not on Phase 1'')
               else (case aiPrompt of
                       Str prompt \<Rightarrow>
                         if \<not> str_includes (toUpperCase prompt) (js ''VU2050'')
                         then Some (w, Error 400 ''AI Prompt must contain keyword "VU2050"'')
                         else respond
                                (saveTeam w teamId
                                   (Obj [(js ''phase1'',
                                          Obj [(js ''aiPrompt'', aiPrompt),
                                               (js ''completed'', Bool True)]),
                                         (js ''currentPhase'', Num 2)]))
                                teamId ''Server error: '' [] (\<lambda>P team. Phase1Completed)
                     | _ \<Rightarrow> Some (w, Error 500 ''Server error: '')))\<close>

subsection \<open>Phase 2\<close>

definition phase2_complete :: "world \<Rightarrow> jsval \<Rightarrow> (world \<times> response) option" where
  "phase2_complete w body =
     (let P = objectPrototype w in
      if body = Undefined \<or> body = Null then Some (w, Error 500 ''Server error'')
      else
        let teamId = getField P body (js ''teamId'')
        in case getTeamById w teamId of
             None \<Rightarrow> Some (w, Error 404 ''Team not found'')
           | Some team \<Rightarrow>
               if truthy (optCompleted P team (js ''phase2''))
               then Some (w, Error 400 ''Phase 2 already completed'')
               else respond
                      (saveTeam w teamId
                         (Obj [(js ''phase2'', Obj [(js ''completed'', Bool True)]),
                               (js ''currentPhase'', Num 3)]))
                      teamId ''Server error'' [] (\<lambda>P team. Phase2Completed))"

text \<open>
  The \<^verbatim>\<open>map\<close> over the questions that counts \<^verbatim>\<open>score\<close> on the side: the score with the
  list of results, from position \<open>index\<close> on.
\<close>

fun phase2_grade ::
  "jsval \<Rightarrow> jsval \<Rightarrow> question list \<Rightarrow> nat \<Rightarrow> error + (nat \<times> phase2_result list)" where
  "phase2_grade P answers [] index = Inr (0, [])"
| "phase2_grade P answers (q # qs) index =
     (case getIndex P answers index of
        Inl e \<Rightarrow> Inl e
      | Inr a \<Rightarrow>
          (case phase2_grade P answers qs (Suc index) of
             Inl e \<Rightarrow> Inl e
           | Inr (score, results) \<Rightarrow>
               (let isCorrect = (a = Num (of_nat (correctAnswer q)))
                in Inr (if isCorrect then Suc score else score,
                        Phase2Result index isCorrect # results))))"

text \<open>
  The update of \<^verbatim>\<open>/api/phase2/submit\<close> has \<^verbatim>\<open>currentPhase\<close> only when the team has passed.
  The handler logs the team id before it looks the team up.
\<close>

definition phase2_submit :: "world \<Rightarrow> jsval \<Rightarrow> (world \<times> response) option" where
  "phase2_submit w body =
     (let P = objectPrototype w in
      if body = Undefined \<or> body = Null then Some (w, Error 500 ''Server error: '')
      else
        let teamId = getField P body (js ''teamId'');
            answers = getField P body (js ''answers'')
        in if \<not> printable teamId then Some (w, Error 500 ''Server error: '')
           else case getTeamById w teamId of
             None \<Rightarrow> Some (w, Error 404 ''Team not found'')
           | Some team \<Rightarrow>
               if truthy (optCompleted P team (js ''phase2''))
               then Some (w, Error 400 ''Phase 2 already completed'')
               else (case phase2_grade P answers phase2Questions 0 of
                       Inl e \<Rightarrow> Some (w, Error 500 ''Server error: '')
                     | Inr (score, results) \<Rightarrow>
                         (let passed = (score = length phase2Questions);
                              updateData =
                                Obj ((js ''phase2'', Obj [(js ''completed'', Bool passed)])
                                     # (if passed then [(js ''currentPhase'', Num 3)] else []))
                          in respond (saveTeam w teamId updateData) teamId
                               ''Server error: '' []
                               (\<lambda>P team. Phase2Submitted score (length phase2Questions)
                                            passed results))))"

subsection \<open>Phase 3\<close>

fun phase3_grade ::
  "jsval \<Rightarrow> jsval \<Rightarrow> question list \<Rightarrow> nat \<Rightarrow> error + (nat \<times> phase3_result list)" where
  "phase3_grade P answers [] index = Inr (0, [])"
| "phase3_grade P answers (q # qs) index =
     (case getIndex P answers index of
        Inl e \<Rightarrow> Inl e
      | Inr a \<Rightarrow>
          (case phase3_grade P answers qs (Suc index) of
             Inl e \<Rightarrow> Inl e
           | Inr (score, results) \<Rightarrow>
               (let isCorrect = (a = Num (of_nat (correctAnswer q)))
                in Inr (if isCorrect then Suc score else score,
                        Phase3Result (question_id q) a (correctAnswer q) isCorrect
                          # results))))"

definition MIN_SCORE :: nat where
  "MIN_SCORE = 3"

definition phase3_submit :: "world \<Rightarrow> jsval \<Rightarrow> (world \<times> response) option" where
  "phase3_submit w body =
     (let P = objectPrototype w in
      if body = Undefined \<or> body = Null then Some (w, Error 500 ''Server error: '')
      else
        let teamId = getField P body (js ''teamId'');
            answers = getField P body (js ''answers'')
        in case getTeamById w teamId of
             None \<Rightarrow> Some (w, Error 404 ''Team not found'')
           | Some team \<Rightarrow>
               if getField P team (js ''currentPhase'') \<noteq> Num 3
               then Some (w, Error 400 ''Not on Phase 3'')
               else if truthy (optCompleted P team (js ''phase3''))
               then Some (w, Error 400 ''Phase 3 already completed'')
               else (case phase3_grade P answers phase3Questions 0 of
                       Inl e \<Rightarrow> Some (w, Error 500 ''Server error: '')
                     | Inr (score, results) \<Rightarrow>
                         if score < MIN_SCORE
                         then (if printable (getField P team (js ''teamName''))
                               then Some (w, Phase3Submitted score False results
                                               phase3Questions)
                               else Some (w, Error 500 ''Server error: ''))
                         else respond
                                (saveTeam w teamId
                                   (Obj [(js ''phase3'', Obj [(js ''completed'', Bool True)]),
                                         (js ''currentPhase'', Num 4)]))
                                teamId ''Server error: '' []
                                (\<lambda>P team. Phase3Submitted score True results
                                             phase3Questions)))"

subsection \<open>Phase 4\<close>

text \<open>
  \<^verbatim>\<open>answer ? answer.trim().toLowerCase() : ''\<close>: a truthy value that is not a string has no
  \<^verbatim>\<open>trim\<close> method, and the call throws.
\<close>

definition userAnswer :: "jsval \<Rightarrow> error + jsstring" where
  "userAnswer answer =
     (if truthy answer
      then (case answer of Str s \<Rightarrow> Inr (toLowerCase (trim s)) | _ \<Rightarrow> Inl TypeError)
      else Inr [])"

definition phase4_submit :: "world \<Rightarrow> jsval \<Rightarrow> (world \<times> response) option" where
  "phase4_submit w body =
     (let P = objectPrototype w in
      if body = Undefined \<or> body = Null then Some (w, Error 500 ''Server error: '')
      else
        let teamId = getField P body (js ''teamId'');
            answer = getField P body (js ''answer'')
        in case getTeamById w teamId of
             None \<Rightarrow> Some (w, Error 404 ''Team not found'')
           | Some team \<Rightarrow>
               if getField P team (js ''currentPhase'') \<noteq> Num 4
               then Some (w, Error 400 ''Not on Phase 4'')
               else if truthy (optCompleted P team (js ''phase4''))
               then Some (w, Error 400 ''Phase 4 already completed'')
               else (case userAnswer answer of
                       Inl e \<Rightarrow> Some (w, Error 500 ''Server error: '')
                     | Inr given \<Rightarrow>
                         (let correct = js ''positive sum: 22, count: 4'';
                              isCorrect = (given = correct \<or> given = js ''22'')
                          in if isCorrect
                             then respond
                                    (saveTeam w teamId
                                       (Obj [(js ''phase4'',
                                              Obj [(js ''completed'', Bool True)]),
                                             (js ''currentPhase'', Num 5)]))
                                    teamId ''Server error: '' [] (\<lambda>P team. Phase4Correct)
                             else Some (w, Phase4Incorrect))))"

subsection \<open>Phase 5\<close>

text \<open>
  The body of the \<^verbatim>\<open>forEach\<close> over the entries of \<^verbatim>\<open>answers\<close>: the riddle whose id is
  \<^verbatim>\<open>parseInt\<close> of the key, and whether the entry's \<^verbatim>\<open>answer\<close> is right for it. \<^verbatim>\<open>ans.answer\<close>
  throws for an entry that is \<^verbatim>\<open>null\<close>.
\<close>

definition findRiddle :: "int option \<Rightarrow> riddle option" where
  "findRiddle n =
     (case n of None \<Rightarrow> None
      | Some i \<Rightarrow> find (\<lambda>r. int (riddle_id r) = i) phase5Riddles)"

definition getAnswer :: "jsval \<Rightarrow> jsval \<Rightarrow> error + jsval" where
  "getAnswer P ans =
     (if ans = Undefined \<or> ans = Null then Inl TypeError
      else Inr (getField P ans (js ''answer'')))"

fun riddleCorrect :: "riddle \<Rightarrow> jsval \<Rightarrow> bool" where
  "riddleCorrect (Mcq i c) a = (a = Num (of_nat c))"
| "riddleCorrect (Text i acceptedAnswers) a =
     (case a of
        Str s \<Rightarrow> list_ex (\<lambda>x. toLowerCase (trim x) = toLowerCase (trim s)) acceptedAnswers
      | _ \<Rightarrow> False)"

fun phase5_count :: "jsval \<Rightarrow> (jsstring \<times> jsval) list \<Rightarrow> error + nat" where
  "phase5_count P [] = Inr 0"
| "phase5_count P ((riddleId, ans) # es) =
     (case findRiddle (parseInt riddleId) of
        None \<Rightarrow> phase5_count P es
      | Some riddle \<Rightarrow>
          (case getAnswer P ans of
             Inl e \<Rightarrow> Inl e
           | Inr a \<Rightarrow>
               (case phase5_count P es of
                  Inl e \<Rightarrow> Inl e
                | Inr n \<Rightarrow> Inr (if riddleCorrect riddle a then Suc n else n))))"

definition serverScore :: "jsval \<Rightarrow> jsval \<Rightarrow> error + nat" where
  "serverScore P answers = phase5_count P (entries answers)"

definition phase5_complete :: "world \<Rightarrow> jsval \<Rightarrow> (world \<times> response) option" where
  "phase5_complete w body =
     (let P = objectPrototype w in
      if body = Undefined \<or> body = Null then Some (w, Error 500 ''Server error: '')
      else
        let teamId = getField P body (js ''teamId'');
            answers = getField P body (js ''answers'');
            score = getField P body (js ''score'')
        in case getTeamById w teamId of
             None \<Rightarrow> Some (w, Error 404 ''Team not found'')
           | Some team \<Rightarrow>
               if getField P team (js ''currentPhase'') \<noteq> Num 5
               then Some (w, Error 400 ''Not on Phase 5'')
               else (case serverScore P answers of
                       Inl e \<Rightarrow> Some (w, Error 500 ''Server error: '')
                     | Inr counted \<Rightarrow>
                         (let totalRiddles = length phase5Riddles
                          in if counted < totalRiddles
                             then (if printable (getField P team (js ''teamName''))
                                   then Some (w, Phase5Failed counted totalRiddles)
                                   else Some (w, Error 500 ''Server error: ''))
                             else respond
                                    (saveTeam w teamId
                                       (Obj [(js ''phase5'',
                                              Obj [(js ''completed'', Bool True)]),
                                             (js ''currentPhase'', Num 6)]))
                                    teamId ''Server error: '' []
                                    (\<lambda>P team. Phase5Completed counted))))"

subsection \<open>Phase 6 and the leaderboard\<close>

definition phase6_submit :: "world \<Rightarrow> jsval \<Rightarrow> (world \<times> response) option" where
  "phase6_submit w body =
     (let P = objectPrototype w in
      if body = Undefined \<or> body = Null then Some (w, Error 500 ''Server error: '')
      else
        let teamId = getField P body (js ''teamId'');
            locationAnswer = getField P body (js ''locationAnswer'')
        in case getTeamById w teamId of
             None \<Rightarrow> Some (w, Error 404 ''Team not found'')
           | Some team \<Rightarrow>
               if getField P team (js ''currentPhase'') \<noteq> Num 6
               then Some (w, Error 400 ''Not on Phase 6'')
               else if truthy (optCompleted P team (js ''phase6''))
               then Some (w, Error 400 ''Already completed'')
               else respond
                      (saveTeam w teamId
                         (Obj [(js ''phase6'',
                                Obj [(js ''locationAnswer'',
                                      if truthy locationAnswer then locationAnswer
                                      else Str []),
                                     (js ''completed'', Bool True)]),
                               (js ''currentPhase'', Num 7)]))
                      teamId ''Server error: ''
                      [if truthy locationAnswer then locationAnswer else Str (js ''none'')]
                      (\<lambda>P team. Phase6Completed (getField P team (js ''teamName''))
                                   (getField P team (js ''teamLeader''))))"

definition leaderboard :: "world \<Rightarrow> response" where
  "leaderboard w =
     (case getCompletedTeams w of
        Inl e \<Rightarrow> Error 500 ''Server error''
      | Inr teams \<Rightarrow> Leaderboard teams)"


section \<open>Routing, administration and the reachable states\<close>

text \<open>The seven \<^verbatim>\<open>app.post\<close> routes that can write a team, and the phase each one is for.\<close>

datatype endpoint =
    Phase1Submit
  | Phase2Complete
  | Phase2Submit
  | Phase3Submit
  | Phase4Submit
  | Phase5Complete
  | Phase6Submit

fun route :: "endpoint \<Rightarrow> world \<Rightarrow> jsval \<Rightarrow> (world \<times> response) option" where
  "route Phase1Submit = phase1_submit"
| "route Phase2Complete = phase2_complete"
| "route Phase2Submit = phase2_submit"
| "route Phase3Submit = phase3_submit"
| "route Phase4Submit = phase4_submit"
| "route Phase5Complete = phase5_complete"
| "route Phase6Submit = phase6_submit"

fun endpoint_phase :: "endpoint \<Rightarrow> nat" where
  "endpoint_phase Phase1Submit = 1"
| "endpoint_phase Phase2Complete = 2"
| "endpoint_phase Phase2Submit = 2"
| "endpoint_phase Phase3Submit = 3"
| "endpoint_phase Phase4Submit = 4"
| "endpoint_phase Phase5Complete = 5"
| "endpoint_phase Phase6Submit = 6"

text \<open>The administrative routes: delete one team, clear all teams.\<close>

definition deleteTeam :: "world \<Rightarrow> jsstring \<Rightarrow> world" where
  "deleteTeam w teamId = w\<lparr>teamsDB := AList.delete (Str teamId) (teamsDB w)\<rparr>"

definition clearAll :: "world \<Rightarrow> world" where
  "clearAll w = w\<lparr>teamsDB := []\<rparr>"

text \<open>
  The server starts with an empty \<^verbatim>\<open>teamsDB\<close> and nothing added to \<^verbatim>\<open>Object.prototype\<close>.
\<close>

definition start :: world where
  "start = \<lparr>objectPrototype = Obj [], teamsDB = []\<rparr>"

text \<open>
  States the server can be in: a registration that passes its validation stores a new
  team under a generated id \<^verbatim>\<open>'TEAM_' + ...\<close>; a request to a phase route leaves the state
  its handler returns; the administrative routes delete. (The other routes only read.) A
  request whose merge leaves the embedding is not followed further, so the server can
  reach more states than these; every state shown reachable below is reached by the
  requests given with it.
\<close>

inductive reachable :: "world \<Rightarrow> bool" where
  initial: "reachable start"
| register:
    "reachable w \<Longrightarrow>
     reachable (createTeam w (Str (js ''TEAM_'' @ stamp))
                  (newTeam (js ''TEAM_'' @ stamp) name leader members mail chosen))"
| request: "reachable w \<Longrightarrow> route ep w body = Some (w', r) \<Longrightarrow> reachable w'"
| delete: "reachable w \<Longrightarrow> reachable (deleteTeam w teamId)"
| clear: "reachable w \<Longrightarrow> reachable (clearAll w)"


section \<open>Example requests\<close>

text \<open>
  The team of the specification's end-to-end example, registered on a server that has
  just started, and the bodies of its requests.
\<close>

definition alphaId :: jsstring where
  "alphaId = js ''TEAM_1''"

definition alpha :: jsval where
  "alpha = newTeam alphaId (js ''Alpha'') (Str (js ''Ann''))
             [js ''Ann'', js ''Bob'', js ''Cy''] (Str (js ''ann@vu.edu''))
             (js ''AI in Education & Learning'')"

definition registered :: world where
  "registered = createTeam start (Str alphaId) alpha"

definition alphaBody :: jsval where
  "alphaBody = Obj [(js ''teamId'', Str alphaId)]"

definition withField :: "jsval \<Rightarrow> string \<Rightarrow> jsval \<Rightarrow> jsval" where
  "withField body name v = putAt body [js name] v"

definition allCorrect2 :: jsval where
  "allCorrect2 = Arr [Num 2, Num 0, Num 2, Num 3, Num 1, Num 2, Num 3, Num 3, Num 3, Num 2]"

definition allWrong2 :: jsval where
  "allWrong2 = Arr [Num 1, Num 1, Num 1, Num 1, Num 0, Num 1, Num 1, Num 1, Num 1, Num 1]"

definition body1 :: jsval where
  "body1 = withField alphaBody ''aiPrompt'' (Str (js ''test VU2050 plan''))"

definition threeOfFive :: jsval where
  "threeOfFive = Arr [Num 0, Num 1, Num 0, Num 3, Num 3]"

definition twoOfFive :: jsval where
  "twoOfFive = Arr [Num 0, Num 1, Num 2, Num 3, Num 3]"

definition riddlesSolved :: jsval where
  "riddlesSolved =
     Obj [(js ''1'', Obj [(js ''answer'', Num 2)]),
          (js ''2'', Obj [(js ''answer'', Num 2)]),
          (js ''3'', Obj [(js ''answer'', Str (js '' Bldg 2 ''))])]"

definition riddlesMissed :: jsval where
  "riddlesMissed =
     Obj [(js ''1'', Obj [(js ''answer'', Num 2)]),
          (js ''2'', Obj [(js ''answer'', Num 1)]),
          (js ''3'', Obj [(js ''answer'', Str (js ''Building 2''))])]"

definition riddleOneThrice :: jsval where
  "riddleOneThrice =
     Obj [(js ''1'', Obj [(js ''answer'', Num 2)]),
          (js ''01'', Obj [(js ''answer'', Num 2)]),
          (js ''001'', Obj [(js ''answer'', Num 2)])]"

text \<open>
  The team of the example with given phase objects and \<^verbatim>\<open>currentPhase\<close>, and the phase
  object of a phase that is not completed and of one that is.
\<close>

definition alphaFields ::
  "jsval \<Rightarrow> jsval \<Rightarrow> jsval \<Rightarrow> jsval \<Rightarrow> jsval \<Rightarrow> jsval \<Rightarrow> nat \<Rightarrow> (jsstring \<times> jsval) list" where
  "alphaFields p1 p2 p3 p4 p5 p6 n =
     [(js ''teamId'', Str alphaId),
      (js ''teamName'', Str (js ''alpha'')),
      (js ''teamLeader'', Str (js ''Ann'')),
      (js ''teamMembers'', Arr [Str (js ''Ann''), Str (js ''Bob''), Str (js ''Cy'')]),
      (js ''email'', Str (js ''ann@vu.edu'')),
      (js ''theme'', Str (js ''AI in Education & Learning'')),
      (js ''phase1'', p1), (js ''phase2'', p2), (js ''phase3'', p3),
      (js ''phase4'', p4), (js ''phase5'', p5), (js ''phase6'', p6),
      (js ''currentPhase'', Num (of_nat n))]"

definition alphaAt ::
  "jsval \<Rightarrow> jsval \<Rightarrow> jsval \<Rightarrow> jsval \<Rightarrow> jsval \<Rightarrow> jsval \<Rightarrow> nat \<Rightarrow> jsval" where
  "alphaAt p1 p2 p3 p4 p5 p6 n = Obj (alphaFields p1 p2 p3 p4 p5 p6 n)"

definition pending :: jsval where
  "pending = Obj [(js ''completed'', Bool False)]"

definition completedPhase :: jsval where
  "completedPhase = Obj [(js ''completed'', Bool True)]"

definition prompted :: jsval where
  "prompted = Obj [(js ''completed'', Bool True),
                   (js ''aiPrompt'', Str (js ''test VU2050 plan''))]"

definition unpolluted :: "(jsval \<times> jsval) list \<Rightarrow> world" where
  "unpolluted teams = \<lparr>objectPrototype = Obj [], teamsDB = teams\<rparr>"

text \<open>The states of the example after each phase, on the regular path.\<close>

definition afterPhase1 :: world where
  "afterPhase1 =
     unpolluted [(Str alphaId, alphaAt prompted pending pending pending pending pending 2)]"

definition afterPhase2 :: world where
  "afterPhase2 =
     unpolluted [(Str alphaId, alphaAt prompted completedPhase pending pending pending pending 3)]"

definition afterPhase3 :: world where
  "afterPhase3 =
     unpolluted [(Str alphaId, alphaAt prompted completedPhase completedPhase pending pending pending 4)]"

definition afterPhase4 :: world where
  "afterPhase4 =
     unpolluted [(Str alphaId, alphaAt prompted completedPhase completedPhase completedPhase pending pending 5)]"

definition afterPhase5 :: world where
  "afterPhase5 =
     unpolluted [(Str alphaId, alphaAt prompted completedPhase completedPhase completedPhase completedPhase pending 6)]"

definition afterPhase6 :: world where
  "afterPhase6 =
     unpolluted
       [(Str alphaId,
         alphaAt prompted completedPhase completedPhase completedPhase completedPhase
           (Obj [(js ''completed'', Bool True), (js ''locationAnswer'', Str (js ''Library''))])
           7)]"

text \<open>
  A second team, and two bodies for \<^verbatim>\<open>/api/phase6/submit\<close> whose \<^verbatim>\<open>locationAnswer\<close> is an object
  with the key \<^verbatim>\<open>__proto__\<close>, as \<^verbatim>\<open>JSON.parse\<close> gives it for the request text
  \<^verbatim>\<open>{"teamId":"TEAM_1","locationAnswer":{"__proto__":{"currentPhase":5}}}\<close>.
\<close>

definition betaId :: jsstring where
  "betaId = js ''TEAM_2''"

definition beta :: jsval where
  "beta = newTeam betaId (js ''Beta'') (Str (js ''Bea''))
            [js ''Bea'', js ''Al'', js ''Di''] (Str (js ''bea@vu.edu''))
            (js ''AI in Smart Cities'')"

definition betaBody :: jsval where
  "betaBody = Obj [(js ''teamId'', Str betaId)]"

definition betaAt :: "jsval \<Rightarrow> jsval \<Rightarrow> jsval \<Rightarrow> nat \<Rightarrow> (jsstring \<times> jsval) list \<Rightarrow> jsval" where
  "betaAt p1 p2 p5 n extra =
     Obj ([(js ''teamId'', Str betaId),
           (js ''teamName'', Str (js ''beta'')),
           (js ''teamLeader'', Str (js ''Bea'')),
           (js ''teamMembers'', Arr [Str (js ''Bea''), Str (js ''Al''), Str (js ''Di'')]),
           (js ''email'', Str (js ''bea@vu.edu'')),
           (js ''theme'', Str (js ''AI in Smart Cities'')),
           (js ''phase1'', p1), (js ''phase2'', p2), (js ''phase3'', pending),
           (js ''phase4'', pending), (js ''phase5'', p5), (js ''phase6'', pending),
           (js ''currentPhase'', Num (of_nat n))] @ extra)"

definition cursorPayload :: jsval where
  "cursorPayload =
     withField alphaBody ''locationAnswer''
       (Obj [(js ''__proto__'', Obj [(js ''currentPhase'', Num 5)])])"

definition promptPayload :: jsval where
  "promptPayload =
     withField alphaBody ''locationAnswer''
       (Obj [(js ''__proto__'', Obj [(js ''aiPrompt'', Str (js ''vu2050''))])])"

text \<open>The team of the first example once one of these requests has completed its phase 6.\<close>

definition alphaDone :: jsval where
  "alphaDone =
     alphaAt prompted completedPhase completedPhase completedPhase completedPhase
       (Obj [(js ''completed'', Bool True), (js ''locationAnswer'', Obj [])]) 7"

text \<open>
  The states after the request with \<^const>\<open>cursorPayload\<close>: \<^verbatim>\<open>Object.prototype\<close> has the
  enumerable property \<^verbatim>\<open>currentPhase\<close>; then the second team registers, fails
  \<^verbatim>\<open>/api/phase2/submit\<close>, passes \<^verbatim>\<open>/api/phase5/complete\<close> and fails \<^verbatim>\<open>/api/phase2/submit\<close> again.
\<close>

definition cursorPrototype :: jsval where
  "cursorPrototype = Obj [(js ''currentPhase'', Num 5)]"

definition failed2 :: jsval where
  "failed2 = Obj [(js ''completed'', Bool False), (js ''currentPhase'', Num 5)]"

definition replayed5 :: jsval where
  "replayed5 = Obj [(js ''completed'', Bool True), (js ''currentPhase'', Num 5)]"

definition cursorPolluted :: world where
  "cursorPolluted = \<lparr>objectPrototype = cursorPrototype, teamsDB = [(Str alphaId, alphaDone)]\<rparr>"

definition betaRegistered :: world where
  "betaRegistered = createTeam cursorPolluted (Str betaId) beta"

definition betaMoved :: world where
  "betaMoved =
     \<lparr>objectPrototype = cursorPrototype,
      teamsDB = [(Str alphaId, alphaDone), (Str betaId, betaAt pending failed2 pending 5 [])]\<rparr>"

definition betaPassed5 :: world where
  "betaPassed5 =
     \<lparr>objectPrototype = cursorPrototype,
      teamsDB = [(Str alphaId, alphaDone), (Str betaId, betaAt pending failed2 replayed5 6 [])]\<rparr>"

definition betaBack :: world where
  "betaBack =
     \<lparr>objectPrototype = cursorPrototype,
      teamsDB = [(Str alphaId, alphaDone), (Str betaId, betaAt pending failed2 replayed5 5 [])]\<rparr>"

text \<open>
  The states after the request with \<^const>\<open>promptPayload\<close>: \<^verbatim>\<open>Object.prototype\<close> has the
  enumerable property \<^verbatim>\<open>aiPrompt\<close>; then the second team registers.
\<close>

definition promptPrototype :: jsval where
  "promptPrototype = Obj [(js ''aiPrompt'', Str (js ''vu2050''))]"

definition promptPolluted :: world where
  "promptPolluted = \<lparr>objectPrototype = promptPrototype, teamsDB = [(Str alphaId, alphaDone)]\<rparr>"

definition betaUnprompted :: world where
  "betaUnprompted = createTeam promptPolluted (Str betaId) beta"

definition betaPrompted :: world where
  "betaPrompted =
     \<lparr>objectPrototype = promptPrototype,
      teamsDB =
        [(Str alphaId, alphaDone),
         (Str betaId,
          betaAt (Obj [(js ''completed'', Bool True), (js ''aiPrompt'', Str (js ''vu2050''))])
            pending pending 2 [(js ''aiPrompt'', Str (js ''vu2050''))])]\<rparr>"


section \<open>The scores as the specification words them\<close>







section \<open>Evaluating the examples\<close>

lemma js_eq_iff [simp]: "js s = js t \<longleftrightarrow> s = t"
  by (simp add: js_def inj_map_eq_map inj_on_def)

lemma js_Nil_iff [simp]: "js s = [] \<longleftrightarrow> s = []"
  by (simp add: js_def)

lemma indexOf_name:
  "of_char c < (48::nat) \<or> (57::nat) < of_char c \<Longrightarrow> indexOf (js (c # s)) = None"
  by (auto simp: indexOf_def js_def Let_def)

lemmas merge_defs =
  saveTeam_def getTeamById_def isObject_def deepMerge_def maxCallStack_def forInKeys_def
  readRef_def theObjectPrototype_def ownKeys_def indexOf_name
  sourceRef_def hasOwn_def child_def ensureObject_def targetProperty_def assign_def
  writeRef_def builtinNames_def Let_def

lemmas handler_defs =
  respond_def teamNow_def getField_def optCompleted_def

lemmas example_defs =
  alphaBody_def betaBody_def withField_def alphaAt_def alphaFields_def betaAt_def pending_def
  completedPhase_def prompted_def unpolluted_def

lemma lower_eval:
  "toLowerCase (js ''Alpha'') = js ''alpha''" "toLowerCase (js ''Beta'') = js ''beta''"
  by (simp_all add: toLowerCase_def js_def)

lemma alpha_eval: "alpha = alphaAt pending pending pending pending pending pending 1"
  by (simp add: alpha_def newTeam_def lower_eval alphaAt_def alphaFields_def pending_def)

lemma beta_eval: "beta = betaAt pending pending pending 1 []"
  by (simp add: beta_def newTeam_def lower_eval betaAt_def pending_def)

lemma registered_eval: "registered = unpolluted [(Str alphaId, alpha)]"
  by (simp add: registered_def createTeam_def start_def unpolluted_def)

lemma alphaId_eval: "alphaId = js ''TEAM_'' @ js ''1''"
  by (simp add: alphaId_def js_def)

lemma betaId_eval: "betaId = js ''TEAM_'' @ js ''2''"
  by (simp add: betaId_def js_def)

lemma ids_differ [simp]: "alphaId \<noteq> betaId" "betaId \<noteq> alphaId"
  by (simp_all add: alphaId_def betaId_def)

lemma ids_nonempty [simp]: "alphaId \<noteq> []" "betaId \<noteq> []"
  by (simp_all add: alphaId_def betaId_def)

lemma reachable_registered: "reachable registered"
  unfolding registered_def alpha_def alphaId_eval
  by (rule reachable.register) (rule reachable.initial)

lemma includes_eval: "str_includes (toUpperCase (js ''test VU2050 plan'')) (js ''VU2050'')"
  by (simp add: str_includes_def toUpperCase_def js_def sublist_code)

lemma phase1_eval: "phase1_submit registered body1 = Some (afterPhase1, Phase1Completed)"
  by (simp add: registered_eval alpha_eval afterPhase1_def body1_def phase1_submit_def
      includes_eval handler_defs example_defs merge_defs)

lemma grade2_eval:
  "phase2_grade P allCorrect2 phase2Questions 0 =
     Inr (10, map (\<lambda>i. Phase2Result i True) [0..<10])"
  by (simp add: allCorrect2_def phase2Questions_def upt_rec)

lemma grade2_wrong_eval:
  "phase2_grade P allWrong2 phase2Questions 0 =
     Inr (0, map (\<lambda>i. Phase2Result i False) [0..<10])"
  by (simp add: allWrong2_def phase2Questions_def upt_rec)

lemma length_phase2Questions: "length phase2Questions = 10"
  by (simp add: phase2Questions_def)

lemma phase2_eval:
  "phase2_submit afterPhase1 (withField alphaBody ''answers'' allCorrect2) =
     Some (afterPhase2, Phase2Submitted 10 10 True (map (\<lambda>i. Phase2Result i True) [0..<10]))"
  by (simp add: afterPhase1_def afterPhase2_def phase2_submit_def grade2_eval
      length_phase2Questions handler_defs example_defs merge_defs del: upt_Suc)


lemma grade3_eval:
  "phase3_grade P threeOfFive phase3Questions 0 =
     Inr (3, [Phase3Result 1 (Num 0) 0 True, Phase3Result 2 (Num 1) 1 True,
              Phase3Result 3 (Num 0) 0 True, Phase3Result 4 (Num 3) 0 False,
              Phase3Result 5 (Num 3) 2 False])"
  by (simp add: threeOfFive_def phase3Questions_def)

lemma grade3_two_eval:
  "phase3_grade P twoOfFive phase3Questions 0 =
     Inr (2, [Phase3Result 1 (Num 0) 0 True, Phase3Result 2 (Num 1) 1 True,
              Phase3Result 3 (Num 2) 0 False, Phase3Result 4 (Num 3) 0 False,
              Phase3Result 5 (Num 3) 2 False])"
  by (simp add: twoOfFive_def phase3Questions_def)

lemma phase3_eval:
  "phase3_submit afterPhase2 (withField alphaBody ''answers'' threeOfFive) =
     Some (afterPhase3,
           Phase3Submitted 3 True
             [Phase3Result 1 (Num 0) 0 True, Phase3Result 2 (Num 1) 1 True,
              Phase3Result 3 (Num 0) 0 True, Phase3Result 4 (Num 3) 0 False,
              Phase3Result 5 (Num 3) 2 False] phase3Questions)"
  by (simp add: afterPhase2_def afterPhase3_def phase3_submit_def grade3_eval MIN_SCORE_def
      handler_defs example_defs merge_defs)

lemma userAnswer_eval:
  "userAnswer (Str (js '' Positive Sum: 22, Count: 4 '')) = Inr (js ''positive sum: 22, count: 4'')"
  by (simp add: userAnswer_def js_def trim_def toLowerCase_def isWhiteSpace_def)

lemma phase4_eval:
  "phase4_submit afterPhase3
     (withField alphaBody ''answer'' (Str (js '' Positive Sum: 22, Count: 4 ''))) =
     Some (afterPhase4, Phase4Correct)"
  by (simp add: afterPhase3_def afterPhase4_def phase4_submit_def userAnswer_eval
      handler_defs example_defs merge_defs)

lemma parseInt_eval:
  "parseInt (js ''1'') = Some 1" "parseInt (js ''2'') = Some 2" "parseInt (js ''3'') = Some 3"
  "parseInt (js ''01'') = Some 1" "parseInt (js ''001'') = Some 1"
  by (simp_all add: parseInt_def js_def isWhiteSpace_def digitValue_def Let_def)

lemma findRiddle_eval:
  "findRiddle (Some 1) = Some (Mcq 1 2)" "findRiddle (Some 2) = Some (Mcq 2 2)"
  "findRiddle (Some 3) = Some (Text 3 [js ''BLDG 2'', js ''BLDG2'', js ''bldg 2'', js ''bldg2'',
     js ''Bldg 2'', js ''Bldg2''])"
  by (simp_all add: findRiddle_def phase5Riddles_def)

lemma indexOf_eval:
  "indexOf (js ''1'') = Some 1" "indexOf (js ''2'') = Some 2" "indexOf (js ''3'') = Some 3"
  "indexOf (js ''01'') = None" "indexOf (js ''001'') = None"
  by (simp_all add: indexOf_def js_def Let_def)

lemma showNat_eval:
  "showNat (Suc 0) = js ''1''" "showNat 2 = js ''2''" "showNat 3 = js ''3''"
  by (simp_all add: showNat.simps js_def)

lemma entries_solved:
  "entries riddlesSolved =
     [(js ''1'', Obj [(js ''answer'', Num 2)]), (js ''2'', Obj [(js ''answer'', Num 2)]),
      (js ''3'', Obj [(js ''answer'', Str (js '' Bldg 2 ''))])]"
  by (simp add: entries_def riddlesSolved_def ownKeys_def indexOf_eval showNat_eval)

lemma entries_missed:
  "entries riddlesMissed =
     [(js ''1'', Obj [(js ''answer'', Num 2)]), (js ''2'', Obj [(js ''answer'', Num 1)]),
      (js ''3'', Obj [(js ''answer'', Str (js ''Building 2''))])]"
  by (simp add: entries_def riddlesMissed_def ownKeys_def indexOf_eval showNat_eval)

lemma entries_thrice:
  "entries riddleOneThrice =
     [(js ''1'', Obj [(js ''answer'', Num 2)]), (js ''01'', Obj [(js ''answer'', Num 2)]),
      (js ''001'', Obj [(js ''answer'', Num 2)])]"
  by (simp add: entries_def riddleOneThrice_def ownKeys_def indexOf_eval showNat_eval)

lemma getAnswer_eval: "getAnswer P (Obj [(js ''answer'', v)]) = Inr v"
  by (simp add: getAnswer_def getField_def)

lemma riddle3_eval:
  "riddleCorrect (Text 3 [js ''BLDG 2'', js ''BLDG2'', js ''bldg 2'', js ''bldg2'',
     js ''Bldg 2'', js ''Bldg2'']) (Str (js '' Bldg 2 ''))"
  "\<not> riddleCorrect (Text 3 [js ''BLDG 2'', js ''BLDG2'', js ''bldg 2'', js ''bldg2'',
     js ''Bldg 2'', js ''Bldg2'']) (Str (js ''Building 2''))"
  by (simp_all add: js_def trim_def toLowerCase_def isWhiteSpace_def)

lemma serverScore_solved: "serverScore P riddlesSolved = Inr 3"
  by (simp add: serverScore_def entries_solved parseInt_eval findRiddle_eval
      getAnswer_eval riddle3_eval del: riddleCorrect.simps(2))

lemma serverScore_missed: "serverScore P riddlesMissed = Inr 1"
  by (simp add: serverScore_def entries_missed parseInt_eval findRiddle_eval
      getAnswer_eval riddle3_eval del: riddleCorrect.simps(2))

lemma serverScore_thrice: "serverScore P riddleOneThrice = Inr 3"
  by (simp add: serverScore_def entries_thrice parseInt_eval findRiddle_eval
      getAnswer_eval)

lemma length_phase5Riddles: "length phase5Riddles = 3"
  by (simp add: phase5Riddles_def)

lemma phase5_eval:
  "phase5_complete afterPhase4 (withField alphaBody ''answers'' riddlesSolved) =
     Some (afterPhase5, Phase5Completed 3)"
  by (simp add: afterPhase4_def afterPhase5_def phase5_complete_def serverScore_solved
      length_phase5Riddles handler_defs example_defs merge_defs)

lemma phase6_eval:
  "phase6_submit afterPhase5 (withField alphaBody ''locationAnswer'' (Str (js ''Library''))) =
     Some (afterPhase6, Phase6Completed (Str (js ''alpha'')) (Str (js ''Ann'')))"
  by (simp add: afterPhase5_def afterPhase6_def phase6_submit_def
      handler_defs example_defs merge_defs)

lemma reachable_afterPhase1: "reachable afterPhase1"
  using reachable_registered phase1_eval by (rule reachable.request [where ep = Phase1Submit, simplified])

lemmas pollution_defs =
  cursorPayload_def promptPayload_def alphaDone_def cursorPrototype_def failed2_def
  replayed5_def cursorPolluted_def betaRegistered_def betaMoved_def betaPassed5_def
  betaBack_def promptPrototype_def promptPolluted_def betaUnprompted_def betaPrompted_def

lemma cursor_eval:
  "phase6_submit afterPhase5 cursorPayload =
     Some (cursorPolluted, Phase6Completed (Str (js ''alpha'')) (Str (js ''Ann'')))"
  by (simp add: afterPhase5_def phase6_submit_def pollution_defs
      handler_defs example_defs merge_defs)

lemma betaRegistered_eval:
  "betaRegistered =
     \<lparr>objectPrototype = cursorPrototype,
      teamsDB = [(Str alphaId, alphaDone), (Str betaId, beta)]\<rparr>"
  by (simp add: betaRegistered_def cursorPolluted_def createTeam_def)

lemma betaMoved_eval:
  "phase2_submit betaRegistered (withField betaBody ''answers'' allWrong2) =
     Some (betaMoved, Phase2Submitted 0 10 False (map (\<lambda>i. Phase2Result i False) [0..<10]))"
  by (simp add: betaRegistered_eval beta_eval phase2_submit_def grade2_wrong_eval
      length_phase2Questions pollution_defs handler_defs example_defs merge_defs del: upt_Suc)

lemma betaPassed5_eval:
  "phase5_complete betaMoved (withField betaBody ''answers'' riddlesSolved) =
     Some (betaPassed5, Phase5Completed 3)"
  by (simp add: phase5_complete_def serverScore_solved length_phase5Riddles
      pollution_defs handler_defs example_defs merge_defs)

lemma betaBack_eval:
  "phase2_submit betaPassed5 (withField betaBody ''answers'' allWrong2) =
     Some (betaBack, Phase2Submitted 0 10 False (map (\<lambda>i. Phase2Result i False) [0..<10]))"
  by (simp add: phase2_submit_def grade2_wrong_eval
      length_phase2Questions pollution_defs handler_defs example_defs merge_defs del: upt_Suc)

lemma replay_eval:
  "phase5_complete betaBack (withField betaBody ''answers'' riddlesSolved) =
     Some (betaPassed5, Phase5Completed 3)"
  by (simp add: phase5_complete_def serverScore_solved length_phase5Riddles
      pollution_defs handler_defs example_defs merge_defs)

lemma prompt_eval:
  "phase6_submit afterPhase5 promptPayload =
     Some (promptPolluted, Phase6Completed (Str (js ''alpha'')) (Str (js ''Ann'')))"
  by (simp add: afterPhase5_def phase6_submit_def pollution_defs
      handler_defs example_defs merge_defs)

lemma betaUnprompted_eval:
  "betaUnprompted =
     \<lparr>objectPrototype = promptPrototype,
      teamsDB = [(Str alphaId, alphaDone), (Str betaId, beta)]\<rparr>"
  by (simp add: betaUnprompted_def promptPolluted_def createTeam_def)

lemma includes_lower_eval: "str_includes (toUpperCase (js ''vu2050'')) (js ''VU2050'')"
  by (simp add: str_includes_def toUpperCase_def js_def sublist_code)

lemma betaPrompted_eval:
  "phase1_submit betaUnprompted betaBody = Some (betaPrompted, Phase1Completed)"
  by (simp add: betaUnprompted_eval beta_eval phase1_submit_def includes_lower_eval
      pollution_defs handler_defs example_defs merge_defs)


section \<open>Completed phases in a state without added properties\<close>

lemma phase_keys [simp]:
  "indexOf (js ''phase3'') = None" "indexOf (js ''phase5'') = None"
  "indexOf (js ''completed'') = None" "indexOf (js ''currentPhase'') = None"
  by (simp_all add: indexOf_name)





section \<open>The pass mark of phase 3\<close>











section \<open>The leaderboard\<close>

text \<open>
  Claim C9. For every state, the leaderboard has at most 10 entries, and each entry is made
  from a stored team whose \<^verbatim>\<open>phase6?.completed\<close> is truthy. (A stored value that is \<^verbatim>\<open>null\<close> makes
  the listing throw: status 500, no entry.)
\<close>

theorem leaderboard_bounded:
  "(case getCompletedTeams w of
      Inl e \<Rightarrow> leaderboard w = Error 500 ''Server error''
    | Inr teams \<Rightarrow>
        length teams \<le> 10 \<and>
        (\<forall>e\<in>set teams.
           \<exists>(teamId, team)\<in>set (teamsDB w).
             truthy (optCompleted (objectPrototype w) team (js ''phase6'')) \<and>
             e = \<lparr>entry_teamId = getField (objectPrototype w) team (js ''teamId''),
                   entry_teamName = getField (objectPrototype w) team (js ''teamName''),
                   entry_teamLeader = getField (objectPrototype w) team (js ''teamLeader'')\<rparr>) \<and>
        leaderboard w = Leaderboard teams)"
  by (force simp: getCompletedTeams_def leaderboard_def Let_def dest!: in_set_takeD)

theorem leaderboard_bounded_witness:
  "getCompletedTeams afterPhase6 =
     Inr [\<lparr>entry_teamId = Str alphaId, entry_teamName = Str (js ''alpha''),
            entry_teamLeader = Str (js ''Ann'')\<rparr>] \<and>
   leaderboard afterPhase6 =
     Leaderboard [\<lparr>entry_teamId = Str alphaId, entry_teamName = Str (js ''alpha''),
                    entry_teamLeader = Str (js ''Ann'')\<rparr>] \<and>
   getCompletedTeams afterPhase5 = Inr [] \<and> leaderboard afterPhase5 = Leaderboard []"
  using leaderboard_bounded [of afterPhase6] leaderboard_bounded [of afterPhase5]
  by (simp add: afterPhase6_def afterPhase5_def getCompletedTeams_def leaderboard_def
      example_defs handler_defs)


section \<open>Phase 5 and the score the client sends\<close>














section \<open>The states of the examples are reachable\<close>

lemma reachable_afterPhase2: "reachable afterPhase2"
  using reachable_afterPhase1 phase2_eval
  by (rule reachable.request [where ep = Phase2Submit, simplified])

lemma reachable_afterPhase3: "reachable afterPhase3"
  using reachable_afterPhase2 phase3_eval
  by (rule reachable.request [where ep = Phase3Submit, simplified])

lemma reachable_afterPhase4: "reachable afterPhase4"
  using reachable_afterPhase3 phase4_eval
  by (rule reachable.request [where ep = Phase4Submit, simplified])

lemma reachable_afterPhase5: "reachable afterPhase5"
  using reachable_afterPhase4 phase5_eval
  by (rule reachable.request [where ep = Phase5Complete, simplified])

lemma reachable_afterPhase6: "reachable afterPhase6"
  using reachable_afterPhase5 phase6_eval
  by (rule reachable.request [where ep = Phase6Submit, simplified])

lemma reachable_cursorPolluted: "reachable cursorPolluted"
  using reachable_afterPhase5 cursor_eval
  by (rule reachable.request [where ep = Phase6Submit, simplified])

lemma reachable_betaRegistered: "reachable betaRegistered"
  unfolding betaRegistered_def beta_def betaId_eval
  by (rule reachable.register) (rule reachable_cursorPolluted)

lemma reachable_betaMoved: "reachable betaMoved"
  using reachable_betaRegistered betaMoved_eval
  by (rule reachable.request [where ep = Phase2Submit, simplified])

lemma reachable_betaPassed5: "reachable betaPassed5"
  using reachable_betaMoved betaPassed5_eval
  by (rule reachable.request [where ep = Phase5Complete, simplified])

lemma reachable_betaBack: "reachable betaBack"
  using reachable_betaPassed5 betaBack_eval
  by (rule reachable.request [where ep = Phase2Submit, simplified])

lemma reachable_promptPolluted: "reachable promptPolluted"
  using reachable_afterPhase5 prompt_eval
  by (rule reachable.request [where ep = Phase6Submit, simplified])

lemma reachable_betaUnprompted: "reachable betaUnprompted"
  unfolding betaUnprompted_def beta_def betaId_eval
  by (rule reachable.register) (rule reachable_promptPolluted)


section \<open>The phase guard of the phase 2 routes\<close>

text \<open>
  Claim C1. A submission to the handler of phase N by a team whose \<^verbatim>\<open>currentPhase\<close> is not N
  is to be refused without a write. The handlers of phases 1, 3, 4, 5 and 6 compare
  \<^verbatim>\<open>currentPhase\<close> with their phase; the two handlers of phase 2 do not. Evaluated on a team
  that has just registered (\<^verbatim>\<open>currentPhase\<close> 1): \<^verbatim>\<open>/api/phase2/complete\<close> answers with success,
  marks phase 2 completed and sets \<^verbatim>\<open>currentPhase\<close> to 3.
\<close>

theorem phase2_complete_from_phase1:
  "reachable registered \<and>
   getTeamById registered (Str alphaId) = Some alpha \<and>
   getField (objectPrototype registered) alpha (js ''currentPhase'') = Num 1 \<and>
   alpha = alphaAt pending pending pending pending pending pending 1 \<and>
   phase2_complete registered alphaBody =
     Some (unpolluted [(Str alphaId, alphaAt pending completedPhase pending pending pending pending 3)],
           Phase2Completed)"
  using reachable_registered
  by (simp add: registered_eval alpha_eval phase2_complete_def handler_defs example_defs
      merge_defs)

text \<open>
  The handlers of the other phases do refuse a team that is on another phase, with status
  400 and without a write.
\<close>

lemma wrong_phase_rejected:
  assumes "body \<noteq> Undefined" and "body \<noteq> Null"
    and "getTeamById w (getField (objectPrototype w) body (js ''teamId'')) = Some team"
    and "getField (objectPrototype w) team (js ''currentPhase'') \<noteq> Num (of_nat (endpoint_phase ep))"
    and "endpoint_phase ep \<noteq> 2"
  shows "\<exists>m. route ep w body = Some (w, Error 400 m)"
  using assms
  by (cases ep)
    (simp_all add: phase1_submit_def phase3_submit_def phase4_submit_def phase5_complete_def
       phase6_submit_def Let_def)

text \<open>
  Claim C2. \<^verbatim>\<open>currentPhase\<close> is to advance by exactly 1 per completed phase, without skipping
  a value. Evaluated on a team that has just registered: \<^verbatim>\<open>/api/phase2/submit\<close> with the ten
  right answers moves \<^verbatim>\<open>currentPhase\<close> from 1 to 3, past the value 2, and phase 1 stays
  uncompleted.
\<close>

theorem phase2_submit_from_phase1:
  "reachable registered \<and>
   getTeamById registered (Str alphaId) = Some alpha \<and>
   getField (objectPrototype registered) alpha (js ''currentPhase'') = Num 1 \<and>
   alpha = alphaAt pending pending pending pending pending pending 1 \<and>
   phase2_submit registered (withField alphaBody ''answers'' allCorrect2) =
     Some (unpolluted [(Str alphaId, alphaAt pending completedPhase pending pending pending pending 3)],
           Phase2Submitted 10 10 True (map (\<lambda>i. Phase2Result i True) [0..<10]))"
  using reachable_registered
  by (simp add: registered_eval alpha_eval phase2_submit_def grade2_eval
      length_phase2Questions handler_defs example_defs merge_defs del: upt_Suc)


section \<open>Completion without a full score\<close>

text \<open>
  Claim C5. In phases 2 and 5 only a submission with every item right is to mark the phase
  completed, on every completion path of phase 2. \<^verbatim>\<open>/api/phase2/complete\<close> reads no answers:
  evaluated on a team on phase 2, with ten answers in the body that the scoring of
  \<^verbatim>\<open>/api/phase2/submit\<close> counts as 0 of 10, it marks phase 2 completed and sets
  \<^verbatim>\<open>currentPhase\<close> to 3.
\<close>

theorem phase2_complete_without_score:
  "phase2_grade (Obj []) allWrong2 phase2Questions 0 =
     Inr (0, map (\<lambda>i. Phase2Result i False) [0..<10]) \<and>
   reachable afterPhase1 \<and>
   getTeamById afterPhase1 (Str alphaId) =
     Some (alphaAt prompted pending pending pending pending pending 2) \<and>
   getField (objectPrototype afterPhase1)
     (alphaAt prompted pending pending pending pending pending 2) (js ''currentPhase'') = Num 2 \<and>
   optCompleted (objectPrototype afterPhase1)
     (alphaAt prompted pending pending pending pending pending 2) (js ''phase2'') = Bool False \<and>
   phase2_complete afterPhase1 (withField alphaBody ''answers'' allWrong2) =
     Some (afterPhase2, Phase2Completed)"
  using reachable_afterPhase1
  by (simp add: grade2_wrong_eval afterPhase1_def afterPhase2_def phase2_complete_def
      handler_defs example_defs merge_defs del: upt_Suc)

text \<open>
  The count of phase 5 runs over the entries of \<^verbatim>\<open>answers\<close> and finds the riddle by
  \<^verbatim>\<open>parseInt\<close> of the key, so the keys \<^verbatim>\<open>1\<close>, \<^verbatim>\<open>01\<close> and \<^verbatim>\<open>001\<close> count riddle 1 three times:
  the team passes with riddles 2 and 3 unanswered.
\<close>

lemma phase5_complete_one_riddle_thrice:
  "reachable afterPhase4 \<and>
   phase5_complete afterPhase4 (withField alphaBody ''answers'' riddleOneThrice) =
     Some (afterPhase5, Phase5Completed 3)"
  using reachable_afterPhase4
  by (simp add: afterPhase4_def afterPhase5_def phase5_complete_def serverScore_thrice
      length_phase5Riddles handler_defs example_defs merge_defs)


section \<open>Completed phases and the progress cursor\<close>

text \<open>
  Claim C10. In every state the server can reach, a completed phase N is to lie behind
  \<^verbatim>\<open>currentPhase\<close>, so that the comparison of \<^verbatim>\<open>currentPhase\<close> alone refuses a replay of
  \<^verbatim>\<open>/api/phase5/complete\<close>. \<^verbatim>\<open>deepMerge\<close> follows the key \<^verbatim>\<open>__proto__\<close> of a location answer into
  \<^verbatim>\<open>Object.prototype\<close> and its loop copies inherited properties, so an update without
  \<^verbatim>\<open>currentPhase\<close> of its own sets the team's \<^verbatim>\<open>currentPhase\<close> to the inherited value. Evaluated
  on the requests of the example: the server reaches a state in which the second team has
  \<^verbatim>\<open>phase5.completed\<close> true and \<^verbatim>\<open>currentPhase\<close> 5.
\<close>

theorem completed_phase_at_cursor:
  "reachable afterPhase5 \<and>
   phase6_submit afterPhase5 cursorPayload =
     Some (cursorPolluted, Phase6Completed (Str (js ''alpha'')) (Str (js ''Ann''))) \<and>
   objectPrototype cursorPolluted = Obj [(js ''currentPhase'', Num 5)] \<and>
   reachable betaBack \<and>
   getTeamById betaBack (Str betaId) = Some (betaAt pending failed2 replayed5 5 []) \<and>
   optCompleted (objectPrototype betaBack) (betaAt pending failed2 replayed5 5 [])
     (js ''phase5'') = Bool True \<and>
   getField (objectPrototype betaBack) (betaAt pending failed2 replayed5 5 [])
     (js ''currentPhase'') = Num 5"
  using reachable_afterPhase5 reachable_betaBack cursor_eval
  by (simp add: pollution_defs handler_defs example_defs getTeamById_def isObject_def)

text \<open>
  Claim C3. A request to the handler of a phase the team has completed is to be refused
  without rescoring and without a write, a second \<^verbatim>\<open>/api/phase5/complete\<close> in particular. The
  handlers of phases 1, 2, 3, 4 and 6 test \<^verbatim>\<open>phaseN.completed\<close>; \<^verbatim>\<open>/api/phase5/complete\<close> tests
  \<^verbatim>\<open>currentPhase\<close> only. Evaluated on the requests of the example: the second team passes
  \<^verbatim>\<open>/api/phase5/complete\<close>, a failed \<^verbatim>\<open>/api/phase2/submit\<close> sets its \<^verbatim>\<open>currentPhase\<close> back to the
  inherited 5, and the second \<^verbatim>\<open>/api/phase5/complete\<close> is scored anew, answered with success
  and written.
\<close>

theorem phase5_replay_accepted:
  "reachable betaMoved \<and>
   phase5_complete betaMoved (withField betaBody ''answers'' riddlesSolved) =
     Some (betaPassed5, Phase5Completed 3) \<and>
   optCompleted (objectPrototype betaPassed5) (betaAt pending failed2 replayed5 6 [])
     (js ''phase5'') = Bool True \<and>
   phase2_submit betaPassed5 (withField betaBody ''answers'' allWrong2) =
     Some (betaBack, Phase2Submitted 0 10 False (map (\<lambda>i. Phase2Result i False) [0..<10])) \<and>
   getTeamById betaBack (Str betaId) = Some (betaAt pending failed2 replayed5 5 []) \<and>
   optCompleted (objectPrototype betaBack) (betaAt pending failed2 replayed5 5 [])
     (js ''phase5'') = Bool True \<and>
   phase5_complete betaBack (withField betaBody ''answers'' riddlesSolved) =
     Some (betaPassed5, Phase5Completed 3) \<and>
   getTeamById betaPassed5 (Str betaId) = Some (betaAt pending failed2 replayed5 6 []) \<and>
   betaPassed5 \<noteq> betaBack"
  using reachable_betaMoved betaPassed5_eval betaBack_eval replay_eval
  by (simp add: pollution_defs handler_defs example_defs getTeamById_def isObject_def
      del: upt_Suc)


section \<open>The answers of phase 4\<close>

lemma userAnswer_examples:
  "userAnswer (Num 22) = Inl TypeError"
  "userAnswer (Str (js ''22'')) = Inr (js ''22'')"
  "userAnswer (Str (js ''23'')) = Inr (js ''23'')"
  by (simp_all add: userAnswer_def js_def trim_def toLowerCase_def isWhiteSpace_def)

text \<open>
  Claim C7. Phase 4 is to accept the two answers and to reject every other input as
  incorrect. \<^verbatim>\<open>answer.trim()\<close> is called on every truthy answer, with no test that it is a
  string (\<^verbatim>\<open>/api/phase5/complete\<close> tests \<^verbatim>\<open>typeof ans.answer === 'string'\<close>, \<^verbatim>\<open>/api/phase5/answer\<close>
  converts with \<^verbatim>\<open>toString()\<close>). Evaluated on a team on phase 4: the string \<^verbatim>\<open>23\<close> is rejected
  as incorrect and the string \<^verbatim>\<open>22\<close> is accepted, but the number 22 makes the handler
  throw, and the response is status 500.
\<close>

theorem phase4_number_answer:
  "reachable afterPhase3 \<and>
   getTeamById afterPhase3 (Str alphaId) =
     Some (alphaAt prompted completedPhase completedPhase pending pending pending 4) \<and>
   phase4_submit afterPhase3 (withField alphaBody ''answer'' (Str (js ''23''))) =
     Some (afterPhase3, Phase4Incorrect) \<and>
   phase4_submit afterPhase3 (withField alphaBody ''answer'' (Str (js ''22''))) =
     Some (afterPhase4, Phase4Correct) \<and>
   phase4_submit afterPhase3 (withField alphaBody ''answer'' (Num 22)) =
     Some (afterPhase3, Error 500 ''Server error: '')"
  using reachable_afterPhase3
  by (simp add: afterPhase3_def afterPhase4_def phase4_submit_def userAnswer_examples
      handler_defs example_defs merge_defs)


section \<open>The marker of phase 1\<close>

text \<open>
  Claim C8. Phase 1 is to pass exactly when the submitted prompt contains \<^verbatim>\<open>VU2050\<close> in any
  case. The handler reads \<^verbatim>\<open>aiPrompt\<close> from the body by destructuring, which also finds a
  property that \<^verbatim>\<open>deepMerge\<close> has written to \<^verbatim>\<open>Object.prototype\<close>. Evaluated on the requests of
  the example: on the server that has just started, a body without \<^verbatim>\<open>aiPrompt\<close> is refused;
  after the request with the key \<^verbatim>\<open>__proto__\<close>, a body without \<^verbatim>\<open>aiPrompt\<close> passes phase 1 for
  the second team, and the inherited text is stored as its prompt.
\<close>

theorem phase1_passes_without_prompt:
  "phase1_submit registered alphaBody =
     Some (registered, Error 400 ''Team ID and AI prompt are required'') \<and>
   reachable afterPhase5 \<and>
   phase6_submit afterPhase5 promptPayload =
     Some (promptPolluted, Phase6Completed (Str (js ''alpha'')) (Str (js ''Ann''))) \<and>
   objectPrototype promptPolluted = Obj [(js ''aiPrompt'', Str (js ''vu2050''))] \<and>
   reachable betaUnprompted \<and>
   getTeamById betaUnprompted (Str betaId) = Some beta \<and>
   betaBody = Obj [(js ''teamId'', Str betaId)] \<and>
   phase1_submit betaUnprompted betaBody = Some (betaPrompted, Phase1Completed) \<and>
   getTeamById betaPrompted (Str betaId) =
     Some (betaAt (Obj [(js ''completed'', Bool True), (js ''aiPrompt'', Str (js ''vu2050''))])
             pending pending 2 [(js ''aiPrompt'', Str (js ''vu2050''))])"
proof -
  have refused: "phase1_submit registered alphaBody =
      Some (registered, Error 400 ''Team ID and AI prompt are required'')"
    by (simp add: registered_eval alpha_eval phase1_submit_def handler_defs example_defs Let_def)
  have added: "objectPrototype promptPolluted = Obj [(js ''aiPrompt'', Str (js ''vu2050''))]"
    by (simp add: pollution_defs)
  have found: "getTeamById betaUnprompted (Str betaId) = Some beta"
    by (simp add: betaUnprompted_eval getTeamById_def isObject_def beta_def newTeam_def)
  have body: "betaBody = Obj [(js ''teamId'', Str betaId)]"
    by (simp add: betaBody_def)
  have stored: "getTeamById betaPrompted (Str betaId) =
      Some (betaAt (Obj [(js ''completed'', Bool True), (js ''aiPrompt'', Str (js ''vu2050''))])
              pending pending 2 [(js ''aiPrompt'', Str (js ''vu2050''))])"
    by (simp add: betaPrompted_def getTeamById_def isObject_def betaAt_def)
  from refused reachable_afterPhase5 prompt_eval added reachable_betaUnprompted found body
    betaPrompted_eval stored
  show ?thesis by (intro conjI)
qed

end
